theory Spec2Isabelle
  imports Main
begin

section \<open>The OAuth router of fastapi-users: data\<close>

text \<open>
  The development embeds \<^verbatim>\<open>src/fastapi_users/router/oauth.py\<close>: the function
  \<^verbatim>\<open>generate_state_token\<close> and the two route handlers \<^verbatim>\<open>authorize\<close> and
  \<^verbatim>\<open>callback\<close> that \<^verbatim>\<open>get_oauth_router\<close> builds. Python values that occur in
  the dictionaries of the source (a JWT payload, an OAuth2 token) are strings or
  integers.
\<close>

datatype pyval = Str string | Num int

type_synonym SecretType = string

type_synonym payload = "string \<rightharpoonup> pyval"

text \<open>
  \<^verbatim>\<open>fastapi_users.settings\<close> is not among the sources; the two constants the router
  imports from it are parameters of the model.
\<close>

record settings =
  STATE_TOKEN_AUDIENCE :: string
  TOKEN_LIFETIME :: int

text \<open>
  \<^verbatim>\<open>ErrorCode\<close> (\<^verbatim>\<open>fastapi_users.router.common\<close>) is not among the sources; the
  router names one member of it.
\<close>

datatype ErrorCode = LOGIN_BAD_CREDENTIALS

text \<open>
  The exception classes of the PyJWT library (\<^verbatim>\<open>import jwt\<close>) that verification of a
  token raises. In \<^verbatim>\<open>jwt/exceptions.py\<close> all of them derive from
  \<^verbatim>\<open>InvalidTokenError\<close>; \<^verbatim>\<open>InvalidSignatureError\<close> is the only subclass of
  \<^verbatim>\<open>DecodeError\<close>. \<open>isinstance_DecodeError\<close> is the test that the clause
  \<^verbatim>\<open>except jwt.DecodeError\<close> performs.
\<close>

datatype jwt_exception =
    DecodeError
  | InvalidSignatureError
  | ExpiredSignatureError
  | InvalidAudienceError
  | MissingRequiredClaimError

fun isinstance_DecodeError :: "jwt_exception \<Rightarrow> bool" where
  "isinstance_DecodeError DecodeError = True"
| "isinstance_DecodeError InvalidSignatureError = True"
| "isinstance_DecodeError ExpiredSignatureError = False"
| "isinstance_DecodeError InvalidAudienceError = False"
| "isinstance_DecodeError MissingRequiredClaimError = False"

text \<open>
  Every exception a handler or one of its collaborators can raise. An
  \<^verbatim>\<open>HTTPException\<close> carries its status code and the \<^verbatim>\<open>detail\<close> argument, \<open>None\<close>
  when the raise passes none.
\<close>

datatype exn =
    HTTPException (status_code: nat) (detail: "ErrorCode option")
  | JWTException jwt_exception
  | KeyError string
  | OtherException string

definition HTTP_400_BAD_REQUEST :: nat where
  "HTTP_400_BAD_REQUEST = 400"

subsection \<open>The JWT helpers\<close>

text \<open>
  An encoded token, symbolically: a string that is no JSON web signature at all, or a
  web signature over a payload made with some key. A signature that does not verify
  under the service's secret is one made with another key.
\<close>

datatype encoded_jwt =
    Malformed string
  | JWS (jws_payload: payload) (jws_key: SecretType)

text \<open>
  Modelled from the spec: \<^verbatim>\<open>fastapi_users/jwt.py\<close> (\<^verbatim>\<open>generate_jwt\<close>,
  \<^verbatim>\<open>decode_jwt\<close>) is not among the sources. Issuing signs the given data with the
  secret and sets the expiry to now + lifetime; the expiry is the \<^verbatim>\<open>exp\<close> entry of
  the payload, which is one flat dictionary (the test \<^verbatim>\<open>test_generate_decode_jwt\<close>
  passes \<^verbatim>\<open>aud\<close> inside the data and reads it back from the result). The first
  argument is the clock, in seconds.
\<close>

definition generate_jwt :: "int \<Rightarrow> payload \<Rightarrow> SecretType \<Rightarrow> int \<Rightarrow> encoded_jwt" where
  "generate_jwt now data secret lifetime_seconds =
     JWS (data(''exp'' \<mapsto> Num (now + lifetime_seconds))) secret"

text \<open>
  Modelled from the spec: verification checks the signature, then the expiry (a token
  past its expiry is rejected), then that the audience claim is one of the expected
  audiences, and returns the payload. Each failure raises the PyJWT class of its kind:
  a malformed token \<^verbatim>\<open>DecodeError\<close>, a bad signature \<^verbatim>\<open>InvalidSignatureError\<close>,
  an expired token \<^verbatim>\<open>ExpiredSignatureError\<close>, a missing audience
  \<^verbatim>\<open>MissingRequiredClaimError\<close>, a wrong one \<^verbatim>\<open>InvalidAudienceError\<close>.
\<close>

definition validate_exp :: "int \<Rightarrow> payload \<Rightarrow> jwt_exception option" where
  "validate_exp now p =
     (case p ''exp'' of
        None \<Rightarrow> None
      | Some (Str _) \<Rightarrow> Some DecodeError
      | Some (Num e) \<Rightarrow> if e < now then Some ExpiredSignatureError else None)"

definition validate_aud :: "payload \<Rightarrow> string list \<Rightarrow> jwt_exception option" where
  "validate_aud p audience =
     (case p ''aud'' of
        None \<Rightarrow> Some MissingRequiredClaimError
      | Some (Num _) \<Rightarrow> Some InvalidAudienceError
      | Some (Str a) \<Rightarrow> if a \<in> set audience then None else Some InvalidAudienceError)"

definition decode_jwt ::
  "int \<Rightarrow> encoded_jwt \<Rightarrow> SecretType \<Rightarrow> string list \<Rightarrow> jwt_exception + payload" where
  "decode_jwt now encoded secret audience =
     (case encoded of
        Malformed _ \<Rightarrow> Inl DecodeError
      | JWS p k \<Rightarrow>
          if k \<noteq> secret then Inl InvalidSignatureError
          else (case validate_exp now p of
                  Some e \<Rightarrow> Inl e
                | None \<Rightarrow>
                    (case validate_aud p audience of
                       Some e \<Rightarrow> Inl e
                     | None \<Rightarrow> Inr p)))"

text \<open>
  The entries of a payload other than the registered claims \<^verbatim>\<open>aud\<close> and
  \<^verbatim>\<open>exp\<close>: its custom fields.
\<close>

definition custom_fields :: "payload \<Rightarrow> payload" where
  "custom_fields p = (\<lambda>k. if k = ''aud'' \<or> k = ''exp'' then None else p k)"

subsection \<open>The state token\<close>

text \<open>
  \<^verbatim>\<open>generate_state_token\<close> assigns \<^verbatim>\<open>data["aud"]\<close> in the dictionary it is given
  and hands that dictionary to \<^verbatim>\<open>generate_jwt\<close>. The model returns the caller's
  dictionary as it is after the call, and the token.
\<close>

definition generate_state_token ::
  "settings \<Rightarrow> int \<Rightarrow> payload \<Rightarrow> SecretType \<Rightarrow> int \<Rightarrow> payload \<times> encoded_jwt" where
  "generate_state_token cfg now data secret lifetime_seconds =
     (let data' = data(''aud'' \<mapsto> Str (STATE_TOKEN_AUDIENCE cfg))
      in (data', generate_jwt now data' secret lifetime_seconds))"

subsection \<open>Collaborators\<close>

record user =
  user_id :: string
  is_active :: bool

record BaseOAuthAccount =
  oauth_name :: string
  access_token :: pyval
  expires_at :: "pyval option"
  refresh_token :: "pyval option"
  account_id :: string
  account_email :: string

record Request =
  url_for :: "string \<Rightarrow> string"

type_synonym OAuth2Token = "string \<rightharpoonup> pyval"

type_synonym extras = "(string \<times> string option) list"

text \<open>
  The OAuth provider client, the authentication backend and the user manager are
  external; each operation returns a value or raises. \<open>'s\<close> is the strategy, \<open>'r\<close>
  the response object handed to \<^verbatim>\<open>login\<close>, \<open>'a\<close> what \<^verbatim>\<open>login\<close> returns.
\<close>

record BaseOAuth2 =
  client_name :: string
  get_authorization_url ::
    "string \<Rightarrow> encoded_jwt \<Rightarrow> string list option \<Rightarrow> extras \<Rightarrow> exn + string"
  get_id_email :: "pyval \<Rightarrow> exn + (string \<times> string)"

record ('s, 'r, 'a) AuthenticationBackend =
  backend_name :: string
  login :: "'s \<Rightarrow> user \<Rightarrow> 'r \<Rightarrow> exn + 'a"

record BaseUserManager =
  oauth_callback :: "BaseOAuthAccount \<Rightarrow> Request \<Rightarrow> exn + user"

text \<open>The arguments of \<^verbatim>\<open>get_oauth_router\<close> that the two handlers close over.\<close>

record ('s, 'r, 'a) oauth_router =
  oauth_client :: BaseOAuth2
  backend :: "('s, 'r, 'a) AuthenticationBackend"
  state_secret :: SecretType
  initial_redirect_url :: "string option"
  initial_follow_redirect :: bool

definition callback_route_name :: "('s, 'r, 'a) oauth_router \<Rightarrow> string" where
  "callback_route_name rt =
     ''oauth:'' @ client_name (oauth_client rt) @ ''.'' @ backend_name (backend rt) @ ''.callback''"

text \<open>
  A handler's run is the list of calls it made, in order, and how it ended. The call
  of \<^verbatim>\<open>decode_jwt\<close> is logged with the others, so that its place among them can be
  stated.
\<close>

datatype call =
    GetAuthorizationUrl (redirect_uri: string) (state: encoded_jwt)
      (scope: "string list option") (extras_params: extras)
  | GetIdEmail pyval
  | DecodeJwt encoded_jwt
  | OAuthCallback BaseOAuthAccount
  | Login user

section \<open>The authorize handler\<close>

datatype authorize_response =
    RedirectResponse string
  | OAuth2AuthorizeResponse (authorization_url: string)

definition authorize ::
  "settings \<Rightarrow> ('s, 'r, 'a) oauth_router \<Rightarrow> int \<Rightarrow> Request \<Rightarrow> string option \<Rightarrow> bool \<Rightarrow>
     string list option \<Rightarrow> string option \<Rightarrow> string option \<Rightarrow>
     call list \<times> (exn + authorize_response)" where
  "authorize cfg rt now request redirect_url follow_redirect scopes
       code_challenge code_challenge_method =
     (let authorize_redirect_url =
            (case redirect_url of
               Some u \<Rightarrow> u
             | None \<Rightarrow>
                 (case initial_redirect_url rt of
                    Some u \<Rightarrow> u
                  | None \<Rightarrow> url_for request (callback_route_name rt)));
          state_data = Map.empty;
          (state_data', state_token) =
            generate_state_token cfg now state_data (state_secret rt) (TOKEN_LIFETIME cfg);
          params = [(''code_challenge'', code_challenge),
                    (''code_challenge_method'', code_challenge_method)];
          calls = [GetAuthorizationUrl authorize_redirect_url state_token scopes params]
      in case get_authorization_url (oauth_client rt)
                authorize_redirect_url state_token scopes params of
           Inl e \<Rightarrow> (calls, Inl e)
         | Inr url \<Rightarrow>
             (calls,
              Inr (if follow_redirect \<or> initial_follow_redirect rt
                   then RedirectResponse url
                   else OAuth2AuthorizeResponse url)))"

section \<open>The callback handler\<close>

text \<open>
  The first argument of the handler, \<^verbatim>\<open>access_token_state\<close>, is what the dependency
  \<^verbatim>\<open>oauth2_authorize_callback\<close> resolved before the handler runs: the provider's
  token and the \<^verbatim>\<open>state\<close> string of the query. \<^verbatim>\<open>token["access_token"]\<close> raises
  \<^verbatim>\<open>KeyError\<close> on a token without that key. The \<^verbatim>\<open>try\<close> statement encloses the
  call of \<^verbatim>\<open>decode_jwt\<close> only, and its single clause \<^verbatim>\<open>except jwt.DecodeError\<close>
  turns an exception of that class into \<^verbatim>\<open>HTTPException(status_code=400)\<close>, with no
  \<^verbatim>\<open>detail\<close>; an exception of any other class leaves the handler as it is.
  \<^verbatim>\<open>models.BaseOAuthAccount\<close> is not among the sources and is taken as a plain record
  of the six keyword arguments.
\<close>

definition callback ::
  "settings \<Rightarrow> ('s, 'r, 'a) oauth_router \<Rightarrow> int \<Rightarrow> Request \<Rightarrow> 'r \<Rightarrow>
     OAuth2Token \<times> encoded_jwt \<Rightarrow> BaseUserManager \<Rightarrow> 's \<Rightarrow> call list \<times> (exn + 'a)" where
  "callback cfg rt now request response access_token_state user_manager strategy =
     (let (token, state_token) = access_token_state
      in case token ''access_token'' of
           None \<Rightarrow> ([], Inl (KeyError ''access_token''))
         | Some tok \<Rightarrow>
             (case get_id_email (oauth_client rt) tok of
                Inl e \<Rightarrow> ([GetIdEmail tok], Inl e)
              | Inr (acc_id, acc_email) \<Rightarrow>
                  (case decode_jwt now state_token (state_secret rt)
                          [STATE_TOKEN_AUDIENCE cfg] of
                     Inl e \<Rightarrow>
                       ([GetIdEmail tok, DecodeJwt state_token],
                        if isinstance_DecodeError e
                        then Inl (HTTPException HTTP_400_BAD_REQUEST None)
                        else Inl (JWTException e))
                   | Inr _ \<Rightarrow>
                       (let new_oauth_account =
                              \<lparr> oauth_name = client_name (oauth_client rt),
                                access_token = tok,
                                expires_at = token ''expires_at'',
                                refresh_token = token ''refresh_token'',
                                account_id = acc_id,
                                account_email = acc_email \<rparr>;
                            calls = [GetIdEmail tok, DecodeJwt state_token,
                                     OAuthCallback new_oauth_account]
                        in case oauth_callback user_manager new_oauth_account request of
                             Inl e \<Rightarrow> (calls, Inl e)
                           | Inr u \<Rightarrow>
                               if \<not> is_active u
                               then (calls,
                                     Inl (HTTPException HTTP_400_BAD_REQUEST
                                            (Some LOGIN_BAD_CREDENTIALS)))
                               else (calls @ [Login u],
                                     login (backend rt) strategy u response)))))"

section \<open>A sample deployment\<close>

text \<open>
  A provider client, a backend and a user manager that always answer, for the concrete
  runs below. The manager resolves every account to a user whose \<open>is_active\<close> flag is
  its argument.
\<close>

definition sample_cfg :: settings where
  "sample_cfg =
     \<lparr> STATE_TOKEN_AUDIENCE = ''fastapi-users:oauth-state'', TOKEN_LIFETIME = 3600 \<rparr>"

definition sample_client :: BaseOAuth2 where
  "sample_client =
     \<lparr> client_name = ''github'',
       get_authorization_url =
         (\<lambda>u st sc ex. Inr (''https://provider/authorize?redirect_uri='' @ u)),
       get_id_email = (\<lambda>t. Inr (''42'', ''king.arthur@camelot.bt'')) \<rparr>"

definition sample_backend :: "(unit, unit, string) AuthenticationBackend" where
  "sample_backend =
     \<lparr> backend_name = ''jwt'', login = (\<lambda>s u r. Inr (''session:'' @ user_id u)) \<rparr>"

definition sample_router :: "string option \<Rightarrow> bool \<Rightarrow> (unit, unit, string) oauth_router" where
  "sample_router initial_url initial_follow =
     \<lparr> oauth_client = sample_client, backend = sample_backend, state_secret = ''SECRET'',
       initial_redirect_url = initial_url, initial_follow_redirect = initial_follow \<rparr>"

definition sample_request :: Request where
  "sample_request = \<lparr> url_for = (\<lambda>n. ''https://app/'' @ n) \<rparr>"

definition sample_manager :: "bool \<Rightarrow> BaseUserManager" where
  "sample_manager active =
     \<lparr> oauth_callback =
         (\<lambda>acct req. Inr \<lparr> user_id = account_id acct, is_active = active \<rparr>) \<rparr>"

definition sample_token :: OAuth2Token where
  "sample_token = [''access_token'' \<mapsto> Str ''TOKEN'']"

text \<open>The state token issued at time 0 for the data \<open>d\<close>, valid for an hour.\<close>

definition sample_state :: "payload \<Rightarrow> encoded_jwt" where
  "sample_state d = snd (generate_state_token sample_cfg 0 d ''SECRET'' 3600)"

section \<open>Basic facts\<close>

lemmas sample_defs = sample_cfg_def sample_client_def sample_backend_def sample_router_def
  sample_request_def sample_manager_def sample_token_def

lemma fst_generate_state_token:
  "fst (generate_state_token cfg now d secret l) =
     d(''aud'' \<mapsto> Str (STATE_TOKEN_AUDIENCE cfg))"
  by (simp add: generate_state_token_def Let_def)

lemma snd_generate_state_token:
  "snd (generate_state_token cfg now d secret l) =
     JWS (d(''aud'' \<mapsto> Str (STATE_TOKEN_AUDIENCE cfg), ''exp'' \<mapsto> Num (now + l))) secret"
  by (simp add: generate_state_token_def generate_jwt_def Let_def)

lemma sample_state_eq:
  "sample_state d =
     JWS (d(''aud'' \<mapsto> Str ''fastapi-users:oauth-state'', ''exp'' \<mapsto> Num 3600)) ''SECRET''"
  by (simp add: sample_state_def snd_generate_state_token sample_cfg_def)

lemma decode_fresh_state_token:
  assumes "now' \<le> now + l"
  shows "decode_jwt now' (snd (generate_state_token cfg now d secret l)) secret
           [STATE_TOKEN_AUDIENCE cfg] =
         Inr (d(''aud'' \<mapsto> Str (STATE_TOKEN_AUDIENCE cfg), ''exp'' \<mapsto> Num (now + l)))"
  using assms
  by (simp add: snd_generate_state_token decode_jwt_def validate_exp_def validate_aud_def)

text \<open>
  The repository's test \<^verbatim>\<open>test_generate_decode_jwt\<close> on the modelled helpers: a
  token generated from \<^verbatim>\<open>{"foo": "bar", "aud": "TEST_AUDIENCE"}\<close> and decoded at once
  against that audience gives both entries back.
\<close>

lemma test_generate_decode_jwt:
  assumes "0 \<le> TOKEN_LIFETIME cfg"
  shows "\<exists>decoded.
           decode_jwt now
             (generate_jwt now [''foo'' \<mapsto> Str ''bar'', ''aud'' \<mapsto> Str ''TEST_AUDIENCE'']
                secret (TOKEN_LIFETIME cfg))
             secret [''TEST_AUDIENCE''] = Inr decoded
           \<and> decoded ''foo'' = Some (Str ''bar'')
           \<and> decoded ''aud'' = Some (Str ''TEST_AUDIENCE'')"
  using assms
  by (simp add: generate_jwt_def decode_jwt_def validate_exp_def validate_aud_def)

text \<open>The one call the authorize handler makes, whatever the provider answers.\<close>

lemma authorize_calls:
  "fst (authorize cfg rt now req redirect_url follow sc cc ccm) =
     [GetAuthorizationUrl
        (case redirect_url of
           Some u \<Rightarrow> u
         | None \<Rightarrow> (case initial_redirect_url rt of
                      Some u \<Rightarrow> u
                    | None \<Rightarrow> url_for req (callback_route_name rt)))
        (snd (generate_state_token cfg now Map.empty (state_secret rt) (TOKEN_LIFETIME cfg)))
        sc
        [(''code_challenge'', cc), (''code_challenge_method'', ccm)]]"
  by (simp add: authorize_def Let_def split: prod.splits sum.splits)

section \<open>State verification in the callback handler\<close>

text \<open>
  What the handler makes of a failed verification, once the identity lookup has
  answered: an exception of class \<^verbatim>\<open>DecodeError\<close> (a malformed token, a bad
  signature) becomes the bare 400; any other leaves the handler unchanged.
\<close>

lemma callback_decode_failure:
  assumes "token ''access_token'' = Some tok"
    and "get_id_email (oauth_client rt) tok = Inr ident"
    and "decode_jwt now st (state_secret rt) [STATE_TOKEN_AUDIENCE cfg] = Inl e"
  shows "snd (callback cfg rt now req resp (token, st) um strat) =
           (if isinstance_DecodeError e then Inl (HTTPException 400 None)
            else Inl (JWTException e))"
  using assms
  by (cases ident) (simp add: callback_def HTTP_400_BAD_REQUEST_def)

text \<open>
  Claim C1 says that every failed verification of the state token, an expired token
  and a wrong audience included, ends the callback with the bare HTTP 400. The handler
  does not do that: the state token issued at time 0 with one hour of life and presented
  at time 3601 makes \<^verbatim>\<open>decode_jwt\<close> raise \<^verbatim>\<open>ExpiredSignatureError\<close>, a token signed
  for another audience makes it raise \<^verbatim>\<open>InvalidAudienceError\<close>, and neither is a
  \<^verbatim>\<open>DecodeError\<close>, so the exception leaves the handler instead of the 400.
\<close>

theorem callback_expired_state_token_escapes:
  "callback sample_cfg (sample_router None False) 3601 sample_request ()
     (sample_token, sample_state Map.empty) (sample_manager True) ()
   = ([GetIdEmail (Str ''TOKEN''), DecodeJwt (sample_state Map.empty)],
      Inl (JWTException ExpiredSignatureError))
   \<and> callback sample_cfg (sample_router None False) 10 sample_request ()
     (sample_token, generate_jwt 0 [''aud'' \<mapsto> Str ''fastapi-users:reset''] ''SECRET'' 3600)
     (sample_manager True) ()
   = ([GetIdEmail (Str ''TOKEN''),
       DecodeJwt (generate_jwt 0 [''aud'' \<mapsto> Str ''fastapi-users:reset''] ''SECRET'' 3600)],
      Inl (JWTException InvalidAudienceError))"
  by (simp add: callback_def sample_defs sample_state_eq generate_jwt_def decode_jwt_def
        validate_exp_def validate_aud_def)

text \<open>
  Claim C2: when verification of the state token fails, the callback handler ends with
  an error and has called neither the account resolver
  (\<^verbatim>\<open>user_manager.oauth_callback\<close>) nor the backend's login. This holds for every
  token, whatever exception verification raised and whether or not the handler caught
  it.
\<close>

theorem callback_invalid_state_no_resolver:
  assumes "isl (decode_jwt now st (state_secret rt) [STATE_TOKEN_AUDIENCE cfg])"
  shows "isl (snd (callback cfg rt now req resp (token, st) um strat))
       \<and> (\<forall>acct. OAuthCallback acct \<notin>
             set (fst (callback cfg rt now req resp (token, st) um strat)))
       \<and> (\<forall>u. Login u \<notin> set (fst (callback cfg rt now req resp (token, st) um strat)))"
  using assms
  by (auto simp: callback_def split: option.splits sum.splits prod.splits)

theorem callback_invalid_state_no_resolver_witness:
  "isl (decode_jwt 3601 (sample_state Map.empty) (state_secret (sample_router None False))
          [STATE_TOKEN_AUDIENCE sample_cfg])
   \<and> isl (snd (callback sample_cfg (sample_router None False) 3601 sample_request ()
                 (sample_token, sample_state Map.empty) (sample_manager True) ()))
   \<and> (\<forall>acct. OAuthCallback acct \<notin>
         set (fst (callback sample_cfg (sample_router None False) 3601 sample_request ()
                 (sample_token, sample_state Map.empty) (sample_manager True) ())))
   \<and> (\<forall>u. Login u \<notin>
         set (fst (callback sample_cfg (sample_router None False) 3601 sample_request ()
                 (sample_token, sample_state Map.empty) (sample_manager True) ())))"
proof -
  have h: "isl (decode_jwt 3601 (sample_state Map.empty)
             (state_secret (sample_router None False)) [STATE_TOKEN_AUDIENCE sample_cfg])"
    by (simp add: sample_state_eq sample_defs decode_jwt_def validate_exp_def)
  show ?thesis
    using h callback_invalid_state_no_resolver [OF h, of sample_request "()" sample_token
        "sample_manager True" "()"]
    by simp
qed

section \<open>The inactive-account gate\<close>

text \<open>
  Claim C3: when the account resolver, called by the callback handler, returns a user
  whose \<open>is_active\<close> flag is false, the handler ends with an HTTP 400 whose detail is
  \<^verbatim>\<open>LOGIN_BAD_CREDENTIALS\<close>, and the backend's login is never called.
\<close>

theorem callback_inactive_user_rejected:
  assumes "OAuthCallback acct \<in> set (fst (callback cfg rt now req resp ats um strat))"
    and "oauth_callback um acct req = Inr u"
    and "\<not> is_active u"
  shows "snd (callback cfg rt now req resp ats um strat) =
           Inl (HTTPException 400 (Some LOGIN_BAD_CREDENTIALS))
       \<and> (\<forall>v. Login v \<notin> set (fst (callback cfg rt now req resp ats um strat)))"
  using assms
  by (auto simp: callback_def HTTP_400_BAD_REQUEST_def Let_def
        split: option.splits sum.splits prod.splits if_splits)

theorem callback_inactive_user_rejected_witness:
  "OAuthCallback \<lparr> oauth_name = ''github'', access_token = Str ''TOKEN'', expires_at = None,
        refresh_token = None, account_id = ''42'', account_email = ''king.arthur@camelot.bt'' \<rparr>
     \<in> set (fst (callback sample_cfg (sample_router None False) 10 sample_request ()
                 (sample_token, sample_state Map.empty) (sample_manager False) ()))
   \<and> \<not> is_active \<lparr> user_id = ''42'', is_active = False \<rparr>
   \<and> snd (callback sample_cfg (sample_router None False) 10 sample_request ()
                 (sample_token, sample_state Map.empty) (sample_manager False) ())
       = Inl (HTTPException 400 (Some LOGIN_BAD_CREDENTIALS))
   \<and> (\<forall>v. Login v \<notin>
         set (fst (callback sample_cfg (sample_router None False) 10 sample_request ()
                 (sample_token, sample_state Map.empty) (sample_manager False) ())))"
proof -
  let ?acct = "\<lparr> oauth_name = ''github'', access_token = Str ''TOKEN'', expires_at = None,
        refresh_token = None, account_id = ''42'', account_email = ''king.arthur@camelot.bt'' \<rparr>"
  let ?u = "\<lparr> user_id = ''42'', is_active = False \<rparr>"
  have reached: "OAuthCallback ?acct
     \<in> set (fst (callback sample_cfg (sample_router None False) 10 sample_request ()
                 (sample_token, sample_state Map.empty) (sample_manager False) ()))"
    by (simp add: callback_def sample_defs sample_state_eq decode_jwt_def validate_exp_def
          validate_aud_def)
  have resolved: "oauth_callback (sample_manager False) ?acct sample_request = Inr ?u"
    by (simp add: sample_manager_def)
  have inactive: "\<not> is_active ?u"
    by simp
  show ?thesis
    using reached inactive callback_inactive_user_rejected [OF reached resolved inactive]
    by simp
qed

section \<open>The state token: round trip, audience and the caller's dictionary\<close>

text \<open>
  The round trip as claim C4 words it, for every custom-data mapping, fails on a mapping
  that has an \<^verbatim>\<open>aud\<close> or an \<^verbatim>\<open>exp\<close> entry of its own: the token carries the
  audience and the expiry under these two keys of the same dictionary, so the decoded
  payload holds the state-token audience and the expiry there, and its custom fields
  are not the mapping that was passed.
\<close>

theorem state_token_roundtrip_counterexample:
  "decode_jwt 10 (sample_state [''aud'' \<mapsto> Str ''other'']) ''SECRET''
       [STATE_TOKEN_AUDIENCE sample_cfg]
     = Inr [''aud'' \<mapsto> Str ''fastapi-users:oauth-state'', ''exp'' \<mapsto> Num 3600]
   \<and> custom_fields [''aud'' \<mapsto> Str ''fastapi-users:oauth-state'', ''exp'' \<mapsto> Num 3600]
       \<noteq> [''aud'' \<mapsto> Str ''other'']
   \<and> decode_jwt 10 (sample_state [''exp'' \<mapsto> Str ''never'']) ''SECRET''
       [STATE_TOKEN_AUDIENCE sample_cfg]
     = Inr [''aud'' \<mapsto> Str ''fastapi-users:oauth-state'', ''exp'' \<mapsto> Num 3600]
   \<and> custom_fields [''aud'' \<mapsto> Str ''fastapi-users:oauth-state'', ''exp'' \<mapsto> Num 3600]
       \<noteq> [''exp'' \<mapsto> Str ''never'']"
proof -
  let ?p = "[''aud'' \<mapsto> Str ''fastapi-users:oauth-state'', ''exp'' \<mapsto> Num 3600]"
  have a: "decode_jwt 10 (sample_state [''aud'' \<mapsto> Str ''other'']) ''SECRET''
       [STATE_TOKEN_AUDIENCE sample_cfg] = Inr ?p"
    by (simp add: sample_state_eq sample_cfg_def decode_jwt_def validate_exp_def
          validate_aud_def)
  have b: "decode_jwt 10 (sample_state [''exp'' \<mapsto> Str ''never'']) ''SECRET''
       [STATE_TOKEN_AUDIENCE sample_cfg] = Inr ?p"
  proof -
    have "[''exp'' \<mapsto> Str ''never'', ''aud'' \<mapsto> Str ''fastapi-users:oauth-state'',
           ''exp'' \<mapsto> Num 3600] = ?p"
      by (rule ext) simp
    then show ?thesis
      by (simp add: sample_state_eq sample_cfg_def decode_jwt_def validate_exp_def
            validate_aud_def)
  qed
  have c: "custom_fields ?p ''aud'' \<noteq> [''aud'' \<mapsto> Str ''other''] ''aud''"
    by (simp add: custom_fields_def)
  have d: "custom_fields ?p ''exp'' \<noteq> [''exp'' \<mapsto> Str ''never''] ''exp''"
    by (simp add: custom_fields_def)
  from c have c': "custom_fields ?p \<noteq> [''aud'' \<mapsto> Str ''other'']" by metis
  from d have d': "custom_fields ?p \<noteq> [''exp'' \<mapsto> Str ''never'']" by metis
  from a b c' d' show ?thesis by blast
qed

text \<open>
  Claim C4, amended: for every custom-data mapping \<open>d\<close> and every value of the
  state-token audience, decoding the token that \<^verbatim>\<open>generate_state_token\<close> issued from
  \<open>d\<close>, before its expiry and against that audience, returns a payload whose audience
  claim is that audience and whose custom fields are the custom fields of \<open>d\<close>; they
  are \<open>d\<close> itself when \<open>d\<close> has no \<^verbatim>\<open>aud\<close> and no \<^verbatim>\<open>exp\<close> entry.
\<close>

theorem state_token_roundtrip:
  assumes "now' < now + l"
  shows "\<exists>p. decode_jwt now' (snd (generate_state_token cfg now d secret l)) secret
               [STATE_TOKEN_AUDIENCE cfg] = Inr p
           \<and> p ''aud'' = Some (Str (STATE_TOKEN_AUDIENCE cfg))
           \<and> custom_fields p = custom_fields d
           \<and> (d ''aud'' = None \<and> d ''exp'' = None \<longrightarrow> custom_fields p = d)"
proof -
  let ?p = "d(''aud'' \<mapsto> Str (STATE_TOKEN_AUDIENCE cfg), ''exp'' \<mapsto> Num (now + l))"
  from assms have "now' \<le> now + l" by simp
  then have dec: "decode_jwt now' (snd (generate_state_token cfg now d secret l)) secret
               [STATE_TOKEN_AUDIENCE cfg] = Inr ?p"
    by (rule decode_fresh_state_token)
  have aud: "?p ''aud'' = Some (Str (STATE_TOKEN_AUDIENCE cfg))"
    by simp
  have cf: "custom_fields ?p = custom_fields d"
    by (rule ext) (simp add: custom_fields_def)
  have plain: "custom_fields d = d" if "d ''aud'' = None" "d ''exp'' = None"
  proof (rule ext)
    fix k
    show "custom_fields d k = d k"
      using that by (simp add: custom_fields_def)
  qed
  from dec aud cf plain show ?thesis
    by auto
qed

theorem state_token_roundtrip_witness:
  "(10::int) < 0 + 3600
   \<and> (\<exists>p. decode_jwt 10 (snd (generate_state_token sample_cfg 0 [''foo'' \<mapsto> Str ''bar'']
                 ''SECRET'' 3600)) ''SECRET'' [STATE_TOKEN_AUDIENCE sample_cfg] = Inr p
           \<and> p ''aud'' = Some (Str (STATE_TOKEN_AUDIENCE sample_cfg))
           \<and> custom_fields p = [''foo'' \<mapsto> Str ''bar''])"
proof -
  have h: "(10::int) < 0 + 3600" by simp
  have free: "[''foo'' \<mapsto> Str ''bar''] ''aud'' = None \<and> [''foo'' \<mapsto> Str ''bar''] ''exp'' = None"
    by simp
  show ?thesis
    using h free
      state_token_roundtrip [OF h, of sample_cfg "[''foo'' \<mapsto> Str ''bar'']" "''SECRET''"]
    by auto
qed

text \<open>
  Claim C7: whatever custom-data mapping is passed, one with an \<^verbatim>\<open>aud\<close> entry of
  another value included, the dictionary handed on to \<^verbatim>\<open>generate_jwt\<close> and the
  payload of the issued token carry the audience \<^verbatim>\<open>STATE_TOKEN_AUDIENCE\<close>.
\<close>

theorem generate_state_token_audience:
  "fst (generate_state_token cfg now d secret l) ''aud'' = Some (Str (STATE_TOKEN_AUDIENCE cfg))
   \<and> (\<exists>p. snd (generate_state_token cfg now d secret l) = JWS p secret
          \<and> p ''aud'' = Some (Str (STATE_TOKEN_AUDIENCE cfg)))"
  by (simp add: fst_generate_state_token snd_generate_state_token)

text \<open>
  Claim C8 says the call leaves the caller's mapping unchanged. It does not: the
  assignment \<^verbatim>\<open>data["aud"] = STATE_TOKEN_AUDIENCE\<close> is made in the caller's
  dictionary, so an empty dictionary has an \<^verbatim>\<open>aud\<close> entry after the call.
\<close>

theorem generate_state_token_mutates_counterexample:
  "fst (generate_state_token sample_cfg 0 Map.empty ''SECRET'' 3600) ''aud''
     = Some (Str ''fastapi-users:oauth-state'')
   \<and> fst (generate_state_token sample_cfg 0 Map.empty ''SECRET'' 3600) \<noteq> Map.empty"
proof -
  have a: "fst (generate_state_token sample_cfg 0 Map.empty ''SECRET'' 3600) ''aud''
     = Some (Str ''fastapi-users:oauth-state'')"
    by (simp add: fst_generate_state_token sample_cfg_def)
  then have "fst (generate_state_token sample_cfg 0 Map.empty ''SECRET'' 3600) ''aud''
     \<noteq> (Map.empty :: payload) ''aud''"
    by simp
  then have "fst (generate_state_token sample_cfg 0 Map.empty ''SECRET'' 3600) \<noteq> Map.empty"
    by metis
  with a show ?thesis by simp
qed

text \<open>
  Claim C8, amended: the only effect of \<^verbatim>\<open>generate_state_token\<close> on the caller's
  mapping is on its \<^verbatim>\<open>aud\<close> entry, which is \<^verbatim>\<open>STATE_TOKEN_AUDIENCE\<close> after the
  call; every other key is as it was, and a mapping whose \<^verbatim>\<open>aud\<close> entry already had
  that value is left unchanged.
\<close>

theorem generate_state_token_frame:
  "(\<forall>k. k \<noteq> ''aud'' \<longrightarrow> fst (generate_state_token cfg now d secret l) k = d k)
   \<and> fst (generate_state_token cfg now d secret l) ''aud'' = Some (Str (STATE_TOKEN_AUDIENCE cfg))
   \<and> (d ''aud'' = Some (Str (STATE_TOKEN_AUDIENCE cfg)) \<longrightarrow>
        fst (generate_state_token cfg now d secret l) = d)"
  by (auto simp: fst_generate_state_token)

theorem generate_state_token_frame_witness:
  "fst (generate_state_token sample_cfg 0 [''foo'' \<mapsto> Str ''bar''] ''SECRET'' 3600) ''foo''
     = Some (Str ''bar'')
   \<and> fst (generate_state_token sample_cfg 0 [''foo'' \<mapsto> Str ''bar''] ''SECRET'' 3600) ''aud''
     = Some (Str ''fastapi-users:oauth-state'')
   \<and> fst (generate_state_token sample_cfg 0 [''aud'' \<mapsto> Str ''fastapi-users:oauth-state'']
            ''SECRET'' 3600)
     = [''aud'' \<mapsto> Str ''fastapi-users:oauth-state'']"
proof -
  have k: "''foo'' \<noteq> ''aud''" by simp
  have same: "[''aud'' \<mapsto> Str ''fastapi-users:oauth-state''] ''aud''
                = Some (Str (STATE_TOKEN_AUDIENCE sample_cfg))"
    by (simp add: sample_cfg_def)
  show ?thesis
    using k same
      generate_state_token_frame [of sample_cfg 0 "[''foo'' \<mapsto> Str ''bar'']" "''SECRET''" 3600]
      generate_state_token_frame [of sample_cfg 0
        "[''aud'' \<mapsto> Str ''fastapi-users:oauth-state'']" "''SECRET''" 3600]
    by (simp add: sample_cfg_def)
qed

section \<open>The authorize handler: redirect target, extras and response\<close>

text \<open>
  Claim C5: the authorize handler asks the provider client for the authorization URL
  once, and the redirect target it passes is the per-request \<^verbatim>\<open>redirect_url\<close> when
  one is given; otherwise the configured \<^verbatim>\<open>initial_redirect_url\<close> when one is
  configured; otherwise the URL of the router's own callback route.
\<close>

theorem authorize_redirect_precedence:
  "(redirect_url = Some R1 \<longrightarrow>
      map redirect_uri (fst (authorize cfg rt now req redirect_url follow sc cc ccm)) = [R1])
   \<and> (redirect_url = None \<and> initial_redirect_url rt = Some R2 \<longrightarrow>
      map redirect_uri (fst (authorize cfg rt now req redirect_url follow sc cc ccm)) = [R2])
   \<and> (redirect_url = None \<and> initial_redirect_url rt = None \<longrightarrow>
      map redirect_uri (fst (authorize cfg rt now req redirect_url follow sc cc ccm)) =
        [url_for req (callback_route_name rt)])"
  by (simp add: authorize_calls)

theorem authorize_redirect_precedence_witness:
  "map redirect_uri (fst (authorize sample_cfg (sample_router (Some ''https://app/r2'') False) 0
       sample_request (Some ''https://app/r1'') False None None None)) = [''https://app/r1'']
   \<and> map redirect_uri (fst (authorize sample_cfg (sample_router (Some ''https://app/r2'') False) 0
       sample_request None False None None None)) = [''https://app/r2'']
   \<and> map redirect_uri (fst (authorize sample_cfg (sample_router None False) 0
       sample_request None False None None None)) = [''https://app/oauth:github.jwt.callback'']"
proof -
  have r2: "initial_redirect_url (sample_router (Some ''https://app/r2'') False)
              = Some ''https://app/r2''"
    and r3: "initial_redirect_url (sample_router None False) = None"
    and u: "url_for sample_request (callback_route_name (sample_router None False)) =
              ''https://app/oauth:github.jwt.callback''"
    by (simp_all add: sample_defs callback_route_name_def)
  show ?thesis
    using r2 r3 u
      authorize_redirect_precedence [of "Some ''https://app/r1''" "''https://app/r1''" sample_cfg
        "sample_router (Some ''https://app/r2'') False" 0 sample_request False None None None
        "''https://app/r2''"]
      authorize_redirect_precedence [of None "''https://app/r1''" sample_cfg
        "sample_router (Some ''https://app/r2'') False" 0 sample_request False None None None
        "''https://app/r2''"]
      authorize_redirect_precedence [of None "''https://app/r1''" sample_cfg
        "sample_router None False" 0 sample_request False None None None
        "''https://app/r2''"]
    by simp
qed

text \<open>
  Claim C6 says that PKCE parameters that were not supplied are left out of the extras.
  They are not: for a request with neither parameter, the extras passed to
  \<^verbatim>\<open>get_authorization_url\<close> hold both keys, each with the value \<^verbatim>\<open>None\<close>.
\<close>

theorem authorize_pkce_absent_counterexample:
  "map extras_params (fst (authorize sample_cfg (sample_router None False) 0 sample_request
       None False None None None))
   = [[(''code_challenge'', None), (''code_challenge_method'', None)]]"
  by (simp add: authorize_calls)

text \<open>
  Claim C6, amended: for every authorize request, the extras passed to
  \<^verbatim>\<open>get_authorization_url\<close> hold exactly the two keys \<^verbatim>\<open>code_challenge\<close> and
  \<^verbatim>\<open>code_challenge_method\<close>, each with the value of the request's parameter, which
  is \<^verbatim>\<open>None\<close> when the parameter was not supplied.
\<close>

theorem authorize_pkce_extras:
  "\<exists>ex. map extras_params (fst (authorize cfg rt now req redirect_url follow sc cc ccm)) = [ex]
        \<and> map fst ex = [''code_challenge'', ''code_challenge_method'']
        \<and> map_of ex ''code_challenge'' = Some cc
        \<and> map_of ex ''code_challenge_method'' = Some ccm"
  by (simp add: authorize_calls)

text \<open>
  Claim C9: for every authorize request, when the provider client returns the
  authorization URL for the call the handler makes (the resolved redirect target, the
  state token, the requested scopes and the two PKCE extras), the handler answers with
  a redirect to that URL if and only if the request's \<^verbatim>\<open>follow_redirect\<close> flag or
  the configured \<^verbatim>\<open>initial_follow_redirect\<close> is set; otherwise it answers with an
  \<^verbatim>\<open>OAuth2AuthorizeResponse\<close> whose \<^verbatim>\<open>authorization_url\<close> field is that URL.
\<close>

theorem authorize_response_shape:
  assumes "get_authorization_url (oauth_client rt)
             (case redirect_url of
                Some u \<Rightarrow> u
              | None \<Rightarrow> (case initial_redirect_url rt of
                           Some u \<Rightarrow> u
                         | None \<Rightarrow> url_for req (callback_route_name rt)))
             (snd (generate_state_token cfg now Map.empty (state_secret rt)
                     (TOKEN_LIFETIME cfg)))
             sc
             [(''code_challenge'', cc), (''code_challenge_method'', ccm)] = Inr url"
  shows "((\<exists>u. snd (authorize cfg rt now req redirect_url follow sc cc ccm) =
                 Inr (RedirectResponse u))
            = (follow \<or> initial_follow_redirect rt))
       \<and> (follow \<or> initial_follow_redirect rt \<longrightarrow>
            snd (authorize cfg rt now req redirect_url follow sc cc ccm) =
              Inr (RedirectResponse url))
       \<and> (\<not> (follow \<or> initial_follow_redirect rt) \<longrightarrow>
            snd (authorize cfg rt now req redirect_url follow sc cc ccm) =
              Inr (OAuth2AuthorizeResponse url)
            \<and> authorization_url (OAuth2AuthorizeResponse url) = url)"
proof -
  obtain data' tok where g:
    "generate_state_token cfg now Map.empty (state_secret rt) (TOKEN_LIFETIME cfg) = (data', tok)"
    by (cases "generate_state_token cfg now Map.empty (state_secret rt) (TOKEN_LIFETIME cfg)")
  from assms g have answer: "snd (authorize cfg rt now req redirect_url follow sc cc ccm) =
      Inr (if follow \<or> initial_follow_redirect rt
           then RedirectResponse url else OAuth2AuthorizeResponse url)"
    by (simp add: authorize_def Let_def)
  show ?thesis
  proof (cases "follow \<or> initial_follow_redirect rt")
    case True
    with answer show ?thesis by simp
  next
    case False
    with answer show ?thesis by simp
  qed
qed

theorem authorize_response_shape_witness:
  "snd (authorize sample_cfg (sample_router None False) 0 sample_request
          (Some ''https://app/r1'') True None None None)
     = Inr (RedirectResponse ''https://provider/authorize?redirect_uri=https://app/r1'')
   \<and> snd (authorize sample_cfg (sample_router (Some ''https://app/r2'') True) 0 sample_request
          None False None (Some ''CHALLENGE'') (Some ''S256''))
     = Inr (RedirectResponse ''https://provider/authorize?redirect_uri=https://app/r2'')
   \<and> snd (authorize sample_cfg (sample_router None False) 0 sample_request
          (Some ''https://app/r1'') False (Some [''openid'']) None None)
     = Inr (OAuth2AuthorizeResponse ''https://provider/authorize?redirect_uri=https://app/r1'')
   \<and> snd (authorize sample_cfg (sample_router None False) 0 sample_request
          None False None None None)
     = Inr (OAuth2AuthorizeResponse
              ''https://provider/authorize?redirect_uri=https://app/oauth:github.jwt.callback'')"
proof -
  have ret: "get_authorization_url (oauth_client (sample_router i b)) target st sc ex
               = Inr (''https://provider/authorize?redirect_uri='' @ target)" for i b target st sc ex
    by (simp add: sample_defs)
  have route: "url_for sample_request (callback_route_name (sample_router None False))
                 = ''https://app/oauth:github.jwt.callback''"
    by (simp add: sample_defs callback_route_name_def)
  show ?thesis
    using route
      authorize_response_shape [where rt = "sample_router None False"
        and redirect_url = "Some ''https://app/r1''" and req = sample_request
        and cfg = sample_cfg and now = 0 and sc = None and cc = None and ccm = None
        and follow = True, OF ret]
      authorize_response_shape [where rt = "sample_router (Some ''https://app/r2'') True"
        and redirect_url = None and req = sample_request
        and cfg = sample_cfg and now = 0 and sc = None and cc = "Some ''CHALLENGE''"
        and ccm = "Some ''S256''" and follow = False, OF ret]
      authorize_response_shape [where rt = "sample_router None False"
        and redirect_url = "Some ''https://app/r1''" and req = sample_request
        and cfg = sample_cfg and now = 0 and sc = "Some [''openid'']" and cc = None
        and ccm = None and follow = False, OF ret]
      authorize_response_shape [where rt = "sample_router None False"
        and redirect_url = None and req = sample_request
        and cfg = sample_cfg and now = 0 and sc = None and cc = None and ccm = None
        and follow = False, OF ret]
    by (simp add: sample_router_def)
qed

section \<open>The order of identity lookup and state verification\<close>

text \<open>
  Claim C10: in the callback handler the identity lookup
  (\<^verbatim>\<open>oauth_client.get_id_email\<close> on the access token) comes before the verification
  of the state token: whenever \<^verbatim>\<open>decode_jwt\<close> is called, the lookup is the call just
  before it and the first of the run; the lookup is made on every request whose token
  has an access token; and a request whose state token is invalid has made the lookup
  before it is rejected.
\<close>

theorem callback_identity_lookup_first:
  "(DecodeJwt s \<in> set (fst (callback cfg rt now req resp (token, st) um strat)) \<longrightarrow>
      (\<exists>t rest. token ''access_token'' = Some t
         \<and> fst (callback cfg rt now req resp (token, st) um strat)
             = GetIdEmail t # DecodeJwt s # rest))
   \<and> (token ''access_token'' = Some tok \<longrightarrow>
      (\<exists>rest. fst (callback cfg rt now req resp (token, st) um strat) = GetIdEmail tok # rest))
   \<and> (token ''access_token'' = Some tok
        \<and> get_id_email (oauth_client rt) tok = Inr ident
        \<and> isl (decode_jwt now st (state_secret rt) [STATE_TOKEN_AUDIENCE cfg]) \<longrightarrow>
      fst (callback cfg rt now req resp (token, st) um strat) = [GetIdEmail tok, DecodeJwt st]
      \<and> isl (snd (callback cfg rt now req resp (token, st) um strat)))"
  by (cases ident)
    (auto simp: callback_def Let_def split: option.splits sum.splits prod.splits)

theorem callback_identity_lookup_first_witness:
  "DecodeJwt (Malformed ''garbage'')
     \<in> set (fst (callback sample_cfg (sample_router None False) 5 sample_request ()
          (sample_token, Malformed ''garbage'') (sample_manager True) ()))
   \<and> sample_token ''access_token'' = Some (Str ''TOKEN'')
   \<and> isl (decode_jwt 5 (Malformed ''garbage'') (state_secret (sample_router None False))
                [STATE_TOKEN_AUDIENCE sample_cfg])
   \<and> fst (callback sample_cfg (sample_router None False) 5 sample_request ()
          (sample_token, Malformed ''garbage'') (sample_manager True) ())
       = [GetIdEmail (Str ''TOKEN''), DecodeJwt (Malformed ''garbage'')]
   \<and> isl (snd (callback sample_cfg (sample_router None False) 5 sample_request ()
          (sample_token, Malformed ''garbage'') (sample_manager True) ()))"
proof -
  have some: "sample_token ''access_token'' = Some (Str ''TOKEN'')"
    by (simp add: sample_token_def)
  have ident: "get_id_email (oauth_client (sample_router None False)) (Str ''TOKEN'')
                 = Inr (''42'', ''king.arthur@camelot.bt'')"
    by (simp add: sample_defs)
  have bad: "isl (decode_jwt 5 (Malformed ''garbage'') (state_secret (sample_router None False))
                [STATE_TOKEN_AUDIENCE sample_cfg])"
    by (simp add: decode_jwt_def)
  show ?thesis
    using some ident bad
      callback_identity_lookup_first [of "Malformed ''garbage''" sample_cfg
        "sample_router None False" 5 sample_request "()" sample_token "Malformed ''garbage''"
        "sample_manager True" "()" "Str ''TOKEN''" "(''42'', ''king.arthur@camelot.bt'')"]
    by simp
qed

end
